theory Spec2Isabelle
  imports Complex_Main "HOL-Library.Word"
begin

section \<open>Data model (main.py, lines 19-39)\<close>

text \<open>
  A calendar date, as \<^verbatim>\<open>datetime.date\<close>: year, month, day.
\<close>

record date =
  year :: int
  month :: int
  day :: int

text \<open>
  A Python \<^verbatim>\<open>float\<close>: a finite value, one of the two infinities, or NaN. A finite
  value is written as the real number it denotes; the type also admits reals that are
  no double, which only widens the inputs a statement ranges over. No arithmetic is
  defined on this type: nothing below adds or rounds.
\<close>

datatype pyfloat = Finite real | PosInf | NegInf | NaN

text \<open>
  The ORM row of table \<^verbatim>\<open>expenses\<close>. The primary key is an \<^verbatim>\<open>INTEGER\<close> column of the
  store: a signed 64-bit integer, never NULL, read through \<open>sint\<close>. The three other
  columns are declared without \<^verbatim>\<open>nullable=False\<close>, so the schema admits NULL in each
  of them: \<open>None\<close> here.
\<close>

record Expense =
  id_col :: "64 word"
  description_col :: "string option"
  amount_col :: "pyfloat option"
  date_col :: "date option"

text \<open>The request schema \<^verbatim>\<open>ExpenseCreate\<close>; \<^verbatim>\<open>ExpenseUpdate\<close> inherits it unchanged.\<close>

record ExpenseCreate =
  description :: string
  amount :: pyfloat
  date :: date

type_synonym ExpenseUpdate = ExpenseCreate

text \<open>
  The response schema \<^verbatim>\<open>ExpenseRead\<close> extends \<^verbatim>\<open>ExpenseCreate\<close> by the id, a Python
  integer.
\<close>

record ExpenseRead = ExpenseCreate +
  id_read :: int

text \<open>
  What a handler can end in other than its return value: the \<^verbatim>\<open>HTTPException\<close> it
  raises itself (status code and detail), or another exception that escapes it, which
  the server answers with status 500.
\<close>

datatype python_exception = OverflowError | ValidationError | InvalidRequestError

datatype http_error =
    HTTPException int string
  | Unhandled python_exception

fun status_code :: "http_error \<Rightarrow> int" where
  "status_code (HTTPException s d) = s"
| "status_code (Unhandled x) = 500"

section \<open>The session: one table, in storage order\<close>

type_synonym table = "Expense list"

text \<open>\<^verbatim>\<open>db.query(Expense).all()\<close>\<close>

definition query_all :: "table \<Rightarrow> Expense list" where
  "query_all tbl = tbl"

text \<open>
  A Python integer can be bound as a parameter of a statement only when it fits the
  store's signed 64-bit integer; binding any other raises \<^verbatim>\<open>OverflowError\<close>.
\<close>

definition storable :: "int \<Rightarrow> bool" where
  "storable i \<longleftrightarrow> - (2 ^ 63) \<le> i \<and> i < 2 ^ 63"

text \<open>
  \<^verbatim>\<open>db.query(Expense).filter(Expense.id == expense_id).first()\<close>: the path parameter
  \<^verbatim>\<open>expense_id: int\<close> is an unbounded Python integer, bound into the query.
\<close>

definition query_first :: "int \<Rightarrow> table \<Rightarrow> http_error + Expense option" where
  "query_first expense_id tbl =
     (if storable expense_id
      then Inr (find (\<lambda>r. sint (id_col r) = expense_id) tbl)
      else Inl (Unhandled OverflowError))"

text \<open>
  The id the store assigns to an inserted row. The column is an integer primary key
  of the SQLite database the application opens, without AUTOINCREMENT: the new id is
  1 in an empty table and the largest id present plus one otherwise. At the largest
  64-bit id the store picks an unused id at random instead; the model wraps around
  there, a case that no sequence of requests reaches from the empty table.
\<close>

definition next_id :: "table \<Rightarrow> 64 word" where
  "next_id tbl =
     (if tbl = [] then 1 else word_of_int (Max (set (map (\<lambda>r. sint (id_col r)) tbl)) + 1))"

text \<open>
  A float bound as a parameter of an INSERT or UPDATE: the store keeps NaN as NULL and
  every other value as it is.
\<close>

definition bind_float :: "pyfloat \<Rightarrow> pyfloat option" where
  "bind_float a = (case a of NaN \<Rightarrow> None | _ \<Rightarrow> Some a)"

text \<open>
  \<^verbatim>\<open>db.add(db_expense); db.commit()\<close> for an object built from the three values: the
  INSERT appends the row under the assigned id, which the object then carries.
\<close>

definition add_commit :: "string \<Rightarrow> pyfloat \<Rightarrow> date \<Rightarrow> table \<Rightarrow> 64 word \<times> table" where
  "add_commit d a dt tbl =
     (let n = next_id tbl
      in (n, tbl @ [\<lparr>id_col = n, description_col = Some d, amount_col = bind_float a,
                     date_col = Some dt\<rparr>]))"

text \<open>
  Assigning the three attributes of the loaded object and committing: one UPDATE of
  the row with the object's primary key.
\<close>

definition update_commit :: "64 word \<Rightarrow> string \<Rightarrow> pyfloat \<Rightarrow> date \<Rightarrow> table \<Rightarrow> table" where
  "update_commit pk d a dt tbl =
     map (\<lambda>r. if id_col r = pk
               then r\<lparr>description_col := Some d, amount_col := bind_float a,
                      date_col := Some dt\<rparr>
               else r) tbl"

text \<open>\<^verbatim>\<open>db.delete(db_expense); db.commit()\<close>: one DELETE of the row with that primary key.\<close>

definition delete_commit :: "64 word \<Rightarrow> table \<Rightarrow> table" where
  "delete_commit pk tbl = filter (\<lambda>r. id_col r \<noteq> pk) tbl"

text \<open>
  \<^verbatim>\<open>db.refresh(db_expense)\<close> reloads the object by its primary key, a stored id, and
  raises when the row is gone.
\<close>

definition refresh :: "64 word \<Rightarrow> table \<Rightarrow> http_error + Expense" where
  "refresh pk tbl =
     (case find (\<lambda>r. id_col r = pk) tbl of
        None \<Rightarrow> Inl (Unhandled InvalidRequestError)
      | Some r \<Rightarrow> Inr r)"

text \<open>
  \<^verbatim>\<open>ExpenseRead.model_validate(db_expense)\<close> reads the four attributes; the schema's
  fields are required, so a NULL attribute raises a validation error inside the handler.
\<close>

definition model_validate :: "Expense \<Rightarrow> http_error + ExpenseRead" where
  "model_validate r =
     (case (description_col r, amount_col r, date_col r) of
        (Some d, Some a, Some dt) \<Rightarrow>
          Inr \<lparr>description = d, amount = a, date = dt, id_read = sint (id_col r)\<rparr>
      | _ \<Rightarrow> Inl (Unhandled ValidationError))"

section \<open>Aggregates\<close>

text \<open>
  \<^verbatim>\<open>func.sum(Expense.amount)\<close> over the selected rows: the SQL aggregate skips NULL
  values, and is NULL itself when no value is left. What the store's floating-point
  summation makes of the values that are left is the parameter \<open>sql_sum\<close>.
\<close>

definition func_sum :: "(pyfloat list \<Rightarrow> pyfloat option) \<Rightarrow> pyfloat option list \<Rightarrow> pyfloat option" where
  "func_sum sql_sum vs =
     (let xs = List.map_filter (\<lambda>v. v) vs
      in if xs = [] then None else sql_sum xs)"

text \<open>Python's \<^verbatim>\<open>total or 0.0\<close>: the left operand unless it is \<^verbatim>\<open>None\<close> or zero.\<close>

definition or_zero :: "pyfloat option \<Rightarrow> pyfloat" where
  "or_zero v = (case v of None \<Rightarrow> Finite 0 | Some t \<Rightarrow> if t = Finite 0 then Finite 0 else t)"

text \<open>
  The filter of lines 160-161: both comparisons on the row's date; a NULL date
  compares to NULL and the row is not selected.
\<close>

definition extract_matches :: "int \<Rightarrow> int \<Rightarrow> Expense \<Rightarrow> bool" where
  "extract_matches current_month current_year r =
     (case date_col r of
        None \<Rightarrow> False
      | Some d \<Rightarrow> month d = current_month \<and> year d = current_year)"

section \<open>Web routes\<close>

datatype template_context =
    IndexContext "Expense list" pyfloat
  | AddContext
  | UpdateContext Expense

datatype web_response =
    TemplateResponse string template_context
  | RedirectResponse string int

definition not_found :: http_error where
  "not_found = HTTPException 404 ''Expense not found''"

text \<open>\<^verbatim>\<open>GET /\<close> (lines 75-83)\<close>

definition read_root ::
  "(pyfloat list \<Rightarrow> pyfloat option) \<Rightarrow> table \<Rightarrow> (http_error + web_response) \<times> table" where
  "read_root sql_sum tbl =
     (let expenses = query_all tbl;
          total = or_zero (func_sum sql_sum (map amount_col (query_all tbl)))
      in (Inr (TemplateResponse ''index.html'' (IndexContext expenses total)), tbl))"

text \<open>\<^verbatim>\<open>GET /add\<close> (lines 85-87): no session.\<close>

definition add_expense_form :: web_response where
  "add_expense_form = TemplateResponse ''add_expense.html'' AddContext"

text \<open>\<^verbatim>\<open>POST /add\<close> (lines 89-100)\<close>

definition add_expense ::
  "string \<Rightarrow> pyfloat \<Rightarrow> date \<Rightarrow> table \<Rightarrow> (http_error + web_response) \<times> table" where
  "add_expense d a dt tbl =
     (let (pk, tbl') = add_commit d a dt tbl
      in (case refresh pk tbl' of
            Inl e \<Rightarrow> (Inl e, tbl')
          | Inr db_expense \<Rightarrow> (Inr (RedirectResponse ''/'' 303), tbl')))"

text \<open>\<^verbatim>\<open>GET /update/{expense_id}\<close> (lines 102-111)\<close>

definition update_expense_form :: "int \<Rightarrow> table \<Rightarrow> (http_error + web_response) \<times> table" where
  "update_expense_form expense_id tbl =
     (case query_first expense_id tbl of
        Inl e \<Rightarrow> (Inl e, tbl)
      | Inr None \<Rightarrow> (Inl not_found, tbl)
      | Inr (Some expense) \<Rightarrow>
          (Inr (TemplateResponse ''update_expense.html'' (UpdateContext expense)), tbl))"

text \<open>\<^verbatim>\<open>POST /update/{expense_id}\<close> (lines 113-129)\<close>

definition update_expense ::
  "int \<Rightarrow> string \<Rightarrow> pyfloat \<Rightarrow> date \<Rightarrow> table \<Rightarrow> (http_error + web_response) \<times> table" where
  "update_expense expense_id d a dt tbl =
     (case query_first expense_id tbl of
        Inl e \<Rightarrow> (Inl e, tbl)
      | Inr None \<Rightarrow> (Inl not_found, tbl)
      | Inr (Some db_expense) \<Rightarrow>
          (let tbl' = update_commit (id_col db_expense) d a dt tbl
           in (case refresh (id_col db_expense) tbl' of
                 Inl e \<Rightarrow> (Inl e, tbl')
               | Inr db_expense' \<Rightarrow> (Inr (RedirectResponse ''/'' 303), tbl'))))"

text \<open>\<^verbatim>\<open>POST /delete/{expense_id}\<close> (lines 131-138)\<close>

definition delete_expense :: "int \<Rightarrow> table \<Rightarrow> (http_error + web_response) \<times> table" where
  "delete_expense expense_id tbl =
     (case query_first expense_id tbl of
        Inl e \<Rightarrow> (Inl e, tbl)
      | Inr None \<Rightarrow> (Inl not_found, tbl)
      | Inr (Some db_expense) \<Rightarrow>
          (Inr (RedirectResponse ''/'' 303), delete_commit (id_col db_expense) tbl))"

section \<open>API routes\<close>

text \<open>\<^verbatim>\<open>POST /api/expenses/\<close> (lines 142-148)\<close>

definition create_expense_api ::
  "ExpenseCreate \<Rightarrow> table \<Rightarrow> (http_error + ExpenseRead) \<times> table" where
  "create_expense_api expense tbl =
     (let (pk, tbl') = add_commit (description expense) (amount expense) (date expense) tbl
      in (case refresh pk tbl' of
            Inl e \<Rightarrow> (Inl e, tbl')
          | Inr db_expense \<Rightarrow> (model_validate db_expense, tbl')))"

text \<open>\<^verbatim>\<open>GET /api/expenses/\<close> (lines 150-153): the comprehension stops at the first row
  that does not validate.\<close>

fun validate_all :: "Expense list \<Rightarrow> http_error + ExpenseRead list" where
  "validate_all [] = Inr []"
| "validate_all (expense # expenses) =
     (case model_validate expense of
        Inl e \<Rightarrow> Inl e
      | Inr r \<Rightarrow> (case validate_all expenses of Inl e \<Rightarrow> Inl e | Inr rs \<Rightarrow> Inr (r # rs)))"

definition read_expenses_api :: "table \<Rightarrow> (http_error + ExpenseRead list) \<times> table" where
  "read_expenses_api tbl = (let expenses = query_all tbl in (validate_all expenses, tbl))"

text \<open>
  \<^verbatim>\<open>GET /api/expenses/total\<close> (lines 155-163). The handler calls \<^verbatim>\<open>date.today()\<close>
  twice: \<open>today1\<close> is what the first call returns, read for its month, and \<open>today2\<close>
  what the second returns, read for its year.
\<close>

definition total_expenses_api ::
  "(pyfloat list \<Rightarrow> pyfloat option) \<Rightarrow> date \<Rightarrow> date \<Rightarrow> table \<Rightarrow> pyfloat \<times> table" where
  "total_expenses_api sql_sum today1 today2 tbl =
     (let current_month = month today1;
          current_year = year today2;
          total = func_sum sql_sum (map amount_col
                    (filter (extract_matches current_month current_year) tbl))
      in (or_zero total, tbl))"

text \<open>\<^verbatim>\<open>PUT /api/expenses/{expense_id}\<close> (lines 165-179)\<close>

definition update_expense_api ::
  "int \<Rightarrow> ExpenseUpdate \<Rightarrow> table \<Rightarrow> (http_error + ExpenseRead) \<times> table" where
  "update_expense_api expense_id expense tbl =
     (case query_first expense_id tbl of
        Inl e \<Rightarrow> (Inl e, tbl)
      | Inr None \<Rightarrow> (Inl not_found, tbl)
      | Inr (Some db_expense) \<Rightarrow>
          (let tbl' = update_commit (id_col db_expense)
                        (description expense) (amount expense) (date expense) tbl
           in (case refresh (id_col db_expense) tbl' of
                 Inl e \<Rightarrow> (Inl e, tbl')
               | Inr db_expense' \<Rightarrow> (model_validate db_expense', tbl'))))"

text \<open>\<^verbatim>\<open>DELETE /api/expenses/{expense_id}\<close> (lines 181-188)\<close>

definition delete_expense_api ::
  "int \<Rightarrow> table \<Rightarrow> (http_error + (string \<times> string) list) \<times> table" where
  "delete_expense_api expense_id tbl =
     (case query_first expense_id tbl of
        Inl e \<Rightarrow> (Inl e, tbl)
      | Inr None \<Rightarrow> (Inl not_found, tbl)
      | Inr (Some db_expense) \<Rightarrow>
          (Inr [(''detail'', ''Expense deleted'')], delete_commit (id_col db_expense) tbl))"

section \<open>The application: routing\<close>

text \<open>
  A request whose parameters have the declared types, with the values the handler
  receives. The two dates of the total route are the two clock readings.
\<close>

datatype request =
    GET_root
  | GET_add
  | POST_add string pyfloat date
  | GET_update int
  | POST_update int string pyfloat date
  | POST_delete int
  | POST_api_expenses ExpenseCreate
  | GET_api_expenses
  | GET_api_expenses_total date date
  | PUT_api_expenses int ExpenseUpdate
  | DELETE_api_expenses int

text \<open>
  What the handler hands to the server: its return value, or the error it ended in.
  How the server renders a return value, as JSON or through a template, is not part
  of this model.
\<close>

datatype response =
    Web web_response
  | JsonExpense ExpenseRead
  | JsonExpenses "ExpenseRead list"
  | JsonNumber pyfloat
  | JsonObject "(string \<times> string) list"
  | Failed http_error

definition respond :: "('a \<Rightarrow> response) \<Rightarrow> (http_error + 'a) \<times> table \<Rightarrow> response \<times> table" where
  "respond wrap out = (case fst out of Inl e \<Rightarrow> (Failed e, snd out) | Inr v \<Rightarrow> (wrap v, snd out))"

fun app :: "(pyfloat list \<Rightarrow> pyfloat option) \<Rightarrow> request \<Rightarrow> table \<Rightarrow> response \<times> table" where
  "app sql_sum GET_root tbl = respond Web (read_root sql_sum tbl)"
| "app sql_sum GET_add tbl = (Web add_expense_form, tbl)"
| "app sql_sum (POST_add d a dt) tbl = respond Web (add_expense d a dt tbl)"
| "app sql_sum (GET_update i) tbl = respond Web (update_expense_form i tbl)"
| "app sql_sum (POST_update i d a dt) tbl = respond Web (update_expense i d a dt tbl)"
| "app sql_sum (POST_delete i) tbl = respond Web (delete_expense i tbl)"
| "app sql_sum (POST_api_expenses e) tbl = respond JsonExpense (create_expense_api e tbl)"
| "app sql_sum GET_api_expenses tbl = respond JsonExpenses (read_expenses_api tbl)"
| "app sql_sum (GET_api_expenses_total t1 t2) tbl =
     (JsonNumber (fst (total_expenses_api sql_sum t1 t2 tbl)),
      snd (total_expenses_api sql_sum t1 t2 tbl))"
| "app sql_sum (PUT_api_expenses i e) tbl = respond JsonExpense (update_expense_api i e tbl)"
| "app sql_sum (DELETE_api_expenses i) tbl = respond JsonObject (delete_expense_api i tbl)"

text \<open>
  The status of a response: the code of a redirect, the code of the error, 200 for a
  return value.
\<close>

fun status :: "response \<Rightarrow> int" where
  "status (Web (RedirectResponse url code)) = code"
| "status (Failed e) = status_code e"
| "status r = 200"

text \<open>Serving a sequence of requests, one after the other, from a given table.\<close>

fun serve :: "(pyfloat list \<Rightarrow> pyfloat option) \<Rightarrow> request list \<Rightarrow> table \<Rightarrow> table" where
  "serve sql_sum [] tbl = tbl"
| "serve sql_sum (req # reqs) tbl = serve sql_sum reqs (snd (app sql_sum req tbl))"

section \<open>Predicates used in the properties\<close>

text \<open>A row with no NULL column.\<close>

definition populated :: "Expense \<Rightarrow> bool" where
  "populated r \<longleftrightarrow> description_col r \<noteq> None \<and> amount_col r \<noteq> None \<and> date_col r \<noteq> None"

text \<open>The invariant of the data model: ids are unique and every row is populated.\<close>

definition table_invariant :: "table \<Rightarrow> bool" where
  "table_invariant tbl \<longleftrightarrow> distinct (map id_col tbl) \<and> list_all populated tbl"

text \<open>A row dated in the calendar month and year of a given day.\<close>

definition same_month :: "date \<Rightarrow> Expense \<Rightarrow> bool" where
  "same_month today r \<longleftrightarrow>
     (\<exists>d. date_col r = Some d \<and> month d = month today \<and> year d = year today)"

text \<open>Rows for the worked examples.\<close>

definition rent_row :: Expense where
  "rent_row = \<lparr>id_col = 1, description_col = Some ''Rent'', amount_col = Some (Finite 900),
                date_col = Some \<lparr>year = 2024, month = 5, day = 1\<rparr>\<rparr>"

definition food_row :: Expense where
  "food_row = \<lparr>id_col = 2, description_col = Some ''Food'', amount_col = Some (Finite 12),
                date_col = Some \<lparr>year = 2024, month = 4, day = 30\<rparr>\<rparr>"

text \<open>Rows for the example of the total across the turn of the year.\<close>

definition dec_row :: Expense where
  "dec_row = \<lparr>id_col = 1, description_col = Some ''Gift'', amount_col = Some (Finite 100),
               date_col = Some \<lparr>year = 2024, month = 12, day = 15\<rparr>\<rparr>"

definition jan_row :: Expense where
  "jan_row = \<lparr>id_col = 2, description_col = Some ''Rent'', amount_col = Some (Finite 200),
               date_col = Some \<lparr>year = 2025, month = 1, day = 10\<rparr>\<rparr>"

section \<open>Lookups by id\<close>

lemma storable_sint: "storable (sint (w :: 64 word))"
  using sint_ge [of w] sint_lt [of w] by (simp add: storable_def)

lemma query_first_unstorable:
  "\<not> storable i \<Longrightarrow> query_first i tbl = Inl (Unhandled OverflowError)"
  by (simp add: query_first_def)

lemma query_first_absent:
  "storable i \<Longrightarrow> i \<notin> sint ` id_col ` set tbl \<Longrightarrow> query_first i tbl = Inr None"
  by (auto simp: query_first_def find_None_iff)

lemma query_first_present:
  assumes "i \<in> sint ` id_col ` set tbl"
  shows "\<exists>r. query_first i tbl = Inr (Some r) \<and> id_col r = word_of_int i"
proof -
  from assms have "storable i"
    using storable_sint by auto
  moreover from assms have "\<exists>r \<in> set tbl. sint (id_col r) = i"
    by auto
  then obtain r where "find (\<lambda>r. sint (id_col r) = i) tbl = Some r"
    by (cases "find (\<lambda>r. sint (id_col r) = i) tbl") (auto simp: find_None_iff)
  moreover from this have "sint (id_col r) = i"
    by (auto simp: find_Some_iff)
  then have "id_col r = word_of_int i"
    by auto
  ultimately show ?thesis
    by (simp add: query_first_def)
qed

section \<open>Deleting an expense\<close>

lemma absent_after_delete_commit:
  "i \<notin> sint ` id_col ` set (delete_commit (word_of_int i) tbl)"
  by (auto simp: delete_commit_def)

lemma delete_expense_api_present:
  "i \<in> sint ` id_col ` set tbl \<Longrightarrow>
   delete_expense_api i tbl =
     (Inr [(''detail'', ''Expense deleted'')], delete_commit (word_of_int i) tbl)"
  using query_first_present [of i tbl] by (auto simp: delete_expense_api_def)

lemma delete_expense_present:
  "i \<in> sint ` id_col ` set tbl \<Longrightarrow>
   delete_expense i tbl = (Inr (RedirectResponse ''/'' 303), delete_commit (word_of_int i) tbl)"
  using query_first_present [of i tbl] by (auto simp: delete_expense_def)

lemma validate_all_ids:
  "validate_all rows = Inr rs \<Longrightarrow> map id_read rs = map (\<lambda>r. sint (id_col r)) rows"
proof (induction rows arbitrary: rs)
  case Nil
  then show ?case by simp
next
  case (Cons r rows)
  then show ?case
    by (auto simp: model_validate_def split: sum.splits option.splits)
qed

lemma validate_all_populated: "list_all populated rows \<Longrightarrow> \<exists>rs. validate_all rows = Inr rs"
  by (induction rows) (auto simp: populated_def model_validate_def)

lemma snd_respond: "snd (respond wrap out) = snd out"
  by (simp add: respond_def split: sum.split)

text \<open>
  C6. When a row carries the id, the delete succeeds with the confirmation payload.
  In the table it leaves, no row carries the id: the listing query does not return it,
  the list route does not show it (and answers whenever the table held no NULL), the
  lookup by id finds nothing, and a second delete raises the 404 exception.
\<close>

theorem delete_removes_then_not_found:
  assumes "expense_id \<in> sint ` id_col ` set tbl"
    and "delete_expense_api expense_id tbl = (res, tbl')"
  shows "res = Inr [(''detail'', ''Expense deleted'')]
       \<and> status (fst (app sql_sum (DELETE_api_expenses expense_id) tbl)) = 200
       \<and> snd (app sql_sum (DELETE_api_expenses expense_id) tbl) = tbl'
       \<and> expense_id \<notin> sint ` id_col ` set (query_all tbl')
       \<and> (\<forall>rs. fst (read_expenses_api tbl') = Inr rs \<longrightarrow> expense_id \<notin> id_read ` set rs)
       \<and> (list_all populated tbl \<longrightarrow> (\<exists>rs. fst (read_expenses_api tbl') = Inr rs))
       \<and> query_first expense_id tbl' = Inr None
       \<and> fst (update_expense_form expense_id tbl') = Inl (HTTPException 404 ''Expense not found'')
       \<and> delete_expense_api expense_id tbl' = (Inl (HTTPException 404 ''Expense not found''), tbl')
       \<and> status (fst (app sql_sum (DELETE_api_expenses expense_id) tbl')) = 404"
proof -
  from assms have res: "res = Inr [(''detail'', ''Expense deleted'')]"
    and tbl': "tbl' = delete_commit (word_of_int expense_id) tbl"
    by (simp_all add: delete_expense_api_present)
  have fits: "storable expense_id"
    using assms(1) storable_sint by auto
  have absent: "expense_id \<notin> sint ` id_col ` set tbl'"
    unfolding tbl' by (rule absent_after_delete_commit)
  have listed: "expense_id \<notin> id_read ` set rs" if "fst (read_expenses_api tbl') = Inr rs" for rs
  proof -
    from that have "map id_read rs = map (\<lambda>r. sint (id_col r)) tbl'"
      by (simp add: read_expenses_api_def query_all_def validate_all_ids)
    then have "set (map id_read rs) = set (map (\<lambda>r. sint (id_col r)) tbl')"
      by simp
    then have "id_read ` set rs = sint ` id_col ` set tbl'"
      by (simp add: image_image)
    with absent show ?thesis by simp
  qed
  have answers: "\<exists>rs. fst (read_expenses_api tbl') = Inr rs" if "list_all populated tbl"
  proof -
    from that have "list_all populated tbl'"
      by (simp add: tbl' delete_commit_def list_all_iff)
    then show ?thesis
      by (simp add: read_expenses_api_def query_all_def validate_all_populated)
  qed
  have gone: "query_first expense_id tbl' = Inr None"
    using fits absent by (rule query_first_absent)
  show ?thesis
    using res assms absent listed answers gone
    by (simp add: delete_expense_api_present delete_expense_api_def update_expense_form_def
        not_found_def query_all_def respond_def)
qed

theorem delete_removes_then_not_found_witness:
  "(1::int) \<in> sint ` id_col ` set [rent_row, food_row]
   \<and> delete_expense_api 1 [rent_row, food_row] =
       (Inr [(''detail'', ''Expense deleted'')], [food_row])
   \<and> fst (read_expenses_api [food_row]) =
       Inr [\<lparr>description = ''Food'', amount = Finite 12,
             date = \<lparr>year = 2024, month = 4, day = 30\<rparr>, id_read = 2\<rparr>]
   \<and> query_first 1 [food_row] = Inr None
   \<and> delete_expense_api 1 [food_row] = (Inl (HTTPException 404 ''Expense not found''), [food_row])"
proof -
  have present: "(1::int) \<in> sint ` id_col ` set [rent_row, food_row]"
    by (simp add: rent_row_def)
  have deleted: "delete_expense_api 1 [rent_row, food_row] =
      (Inr [(''detail'', ''Expense deleted'')], [food_row])"
    by (simp add: delete_expense_api_def query_first_def storable_def delete_commit_def
        rent_row_def food_row_def)
  have listed: "fst (read_expenses_api [food_row]) =
       Inr [\<lparr>description = ''Food'', amount = Finite 12,
             date = \<lparr>year = 2024, month = 4, day = 30\<rparr>, id_read = 2\<rparr>]"
    by (simp add: read_expenses_api_def query_all_def model_validate_def food_row_def)
  from delete_removes_then_not_found [OF present deleted] present deleted listed
  show ?thesis by simp
qed

text \<open>
  A delete addressed to an absent id that fits the store's integer raises the 404
  exception and leaves the table as it was.
\<close>

lemma delete_absent_storable:
  assumes "storable i" and "i \<notin> sint ` id_col ` set tbl"
  shows "delete_expense_api i tbl = (Inl (HTTPException 404 ''Expense not found''), tbl)"
    and "delete_expense i tbl = (Inl (HTTPException 404 ''Expense not found''), tbl)"
  using query_first_absent [OF assms]
  by (simp_all add: delete_expense_api_def delete_expense_def not_found_def)

text \<open>
  C10. The id \<open>2 ^ 63\<close> is a Python integer that the path parameter accepts and that
  no row of any table carries. A delete addressed to it, through
  \<^verbatim>\<open>DELETE /api/expenses/{id}\<close> or \<^verbatim>\<open>POST /delete/{id}\<close>, does not reach the check
  that raises 404: binding the id into the lookup raises \<^verbatim>\<open>OverflowError\<close>, and the
  request ends in status 500. The table is as it was.
\<close>

theorem delete_unstorable_id_overflow:
  "9223372036854775808 \<notin> sint ` id_col ` set tbl
   \<and> delete_expense_api 9223372036854775808 tbl = (Inl (Unhandled OverflowError), tbl)
   \<and> delete_expense 9223372036854775808 tbl = (Inl (Unhandled OverflowError), tbl)
   \<and> status (fst (app sql_sum (DELETE_api_expenses 9223372036854775808) tbl)) = 500
   \<and> status (fst (app sql_sum (POST_delete 9223372036854775808) tbl)) = 500"
proof -
  have big: "\<not> storable 9223372036854775808"
    by (simp add: storable_def)
  then have "9223372036854775808 \<notin> sint ` id_col ` set tbl"
    using storable_sint by auto
  then show ?thesis
    using query_first_unstorable [OF big, of tbl]
    by (simp add: delete_expense_api_def delete_expense_def respond_def)
qed

section \<open>Updating an expense\<close>

text \<open>
  An update addressed to an absent id that fits the store's integer raises the 404
  exception and leaves the table as it was.
\<close>

lemma update_absent_storable:
  assumes "storable i" and "i \<notin> sint ` id_col ` set tbl"
  shows "update_expense_api i e tbl = (Inl (HTTPException 404 ''Expense not found''), tbl)"
    and "update_expense i d a dt tbl = (Inl (HTTPException 404 ''Expense not found''), tbl)"
  using query_first_absent [OF assms]
  by (simp_all add: update_expense_api_def update_expense_def not_found_def)

text \<open>
  C5. An update addressed to the absent id \<open>2 ^ 63\<close>, through
  \<^verbatim>\<open>PUT /api/expenses/{id}\<close> or \<^verbatim>\<open>POST /update/{id}\<close>, does not reach the check that
  raises 404: binding the id into the lookup raises \<^verbatim>\<open>OverflowError\<close>, and the request
  ends in status 500. The table is as it was.
\<close>

theorem update_unstorable_id_overflow:
  "9223372036854775808 \<notin> sint ` id_col ` set tbl
   \<and> update_expense_api 9223372036854775808 expense tbl = (Inl (Unhandled OverflowError), tbl)
   \<and> update_expense 9223372036854775808 d a dt tbl = (Inl (Unhandled OverflowError), tbl)
   \<and> status (fst (app sql_sum (PUT_api_expenses 9223372036854775808 expense) tbl)) = 500
   \<and> status (fst (app sql_sum (POST_update 9223372036854775808 d a dt) tbl)) = 500"
proof -
  have big: "\<not> storable 9223372036854775808"
    by (simp add: storable_def)
  then have "9223372036854775808 \<notin> sint ` id_col ` set tbl"
    using storable_sint by auto
  then show ?thesis
    using query_first_unstorable [OF big, of tbl]
    by (simp add: update_expense_api_def update_expense_def respond_def)
qed

text \<open>
  An update of a present id with an amount other than NaN answers with the three new
  values, and the lookup of the id finds them stored.
\<close>

lemma find_update_commit:
  "find (\<lambda>r. id_col r = pk) (update_commit pk d a dt tbl) =
     map_option (\<lambda>r. r\<lparr>description_col := Some d, amount_col := bind_float a, date_col := Some dt\<rparr>)
       (find (\<lambda>r. id_col r = pk) tbl)"
  by (induction tbl) (auto simp: update_commit_def)

lemma update_expense_api_stored:
  assumes "i \<in> sint ` id_col ` set tbl" and "amount e \<noteq> NaN"
  shows "fst (update_expense_api i e tbl) =
           Inr \<lparr>description = description e, amount = amount e, date = date e, id_read = i\<rparr>"
    and "\<exists>r. query_first i (snd (update_expense_api i e tbl)) = Inr (Some r)
           \<and> description_col r = Some (description e) \<and> amount_col r = Some (amount e)
           \<and> date_col r = Some (date e)"
proof -
  obtain r0 where r0: "query_first i tbl = Inr (Some r0)" "id_col r0 = word_of_int i"
    using query_first_present [OF assms(1)] by blast
  have fits: "storable i"
    using assms(1) storable_sint by auto
  have sint_i: "sint (word_of_int i :: 64 word) = i"
    using assms(1) by auto
  have kept: "bind_float (amount e) = Some (amount e)"
    using assms(2) by (cases "amount e") (simp_all add: bind_float_def)
  from r0 fits have found: "find (\<lambda>r. sint (id_col r) = i) tbl = Some r0"
    by (simp add: query_first_def)
  then have "r0 \<in> set tbl"
    by (auto simp: find_Some_iff in_set_conv_nth)
  then have "find (\<lambda>r. id_col r = word_of_int i) tbl \<noteq> None"
    using r0(2) by (auto simp: find_None_iff)
  then obtain r1 where r1: "find (\<lambda>r. id_col r = word_of_int i) tbl = Some r1"
    by auto
  then have id1: "id_col r1 = word_of_int i"
    by (auto simp: find_Some_iff)
  show "fst (update_expense_api i e tbl) =
           Inr \<lparr>description = description e, amount = amount e, date = date e, id_read = i\<rparr>"
    using r0 r1 id1 sint_i kept
    by (simp add: update_expense_api_def refresh_def find_update_commit model_validate_def)
  have same: "(\<lambda>r. sint (id_col r) = i) = (\<lambda>r. id_col r = (word_of_int i :: 64 word))"
    using sint_i by (auto simp: fun_eq_iff)
  show "\<exists>r. query_first i (snd (update_expense_api i e tbl)) = Inr (Some r)
           \<and> description_col r = Some (description e) \<and> amount_col r = Some (amount e)
           \<and> date_col r = Some (date e)"
    using r0 r1 id1 sint_i kept fits
    by (simp add: update_expense_api_def refresh_def find_update_commit model_validate_def
        query_first_def same)
qed

section \<open>Creating an expense\<close>

text \<open>
  While the largest id present is below the largest 64-bit integer, the assigned id is
  carried by no row of the table.
\<close>

lemma next_id_fresh:
  assumes "\<forall>r \<in> set tbl. sint (id_col r) < 2 ^ 63 - 1"
  shows "next_id tbl \<notin> id_col ` set tbl"
proof (cases "tbl = []")
  case True
  then show ?thesis by simp
next
  case False
  define M where "M = Max (set (map (\<lambda>r. sint (id_col r)) tbl))"
  have "M \<in> set (map (\<lambda>r. sint (id_col r)) tbl)"
    unfolding M_def using False by (intro Max_in) auto
  then obtain r0 where r0: "r0 \<in> set tbl" "M = sint (id_col r0)"
    by auto
  have upper: "M < 2 ^ 63 - 1"
    using assms r0 by simp
  have lower: "- (2 ^ 63) \<le> M"
    using sint_ge [of "id_col r0"] r0 by simp
  have le: "sint (id_col r) \<le> M" if "r \<in> set tbl" for r
    unfolding M_def using that by (intro Max_ge) auto
  have "sint (word_of_int (M + 1) :: 64 word) = M + 1"
    using upper lower signed_take_bit_int_eq_self [of 63 "M + 1"]
      sint_sbintrunc' [where 'a = 64, of "M + 1"]
    by simp
  then have differs: "id_col r \<noteq> word_of_int (M + 1)" if "r \<in> set tbl" for r
    using le [OF that] by auto
  have "next_id tbl = word_of_int (M + 1)"
    using False by (simp only: next_id_def M_def if_False)
  with differs show ?thesis
    by (metis imageE)
qed

lemma find_append_None: "find P xs = None \<Longrightarrow> find P (xs @ ys) = find P ys"
  by (induction xs) (auto split: if_splits)

lemma snd_add_expense: "snd (add_expense d a dt tbl) = snd (add_commit d a dt tbl)"
  by (simp add: add_expense_def split: prod.split sum.split)

lemma snd_create_expense_api:
  "snd (create_expense_api e tbl) = snd (add_commit (description e) (amount e) (date e) tbl)"
  by (simp add: create_expense_api_def split: prod.split sum.split)

lemma create_expense_api_stored:
  assumes "\<forall>r \<in> set tbl. sint (id_col r) < 2 ^ 63 - 1" and "amount e \<noteq> NaN"
  shows "create_expense_api e tbl =
     (Inr \<lparr>description = description e, amount = amount e, date = date e,
           id_read = sint (next_id tbl)\<rparr>,
      tbl @ [\<lparr>id_col = next_id tbl, description_col = Some (description e),
               amount_col = Some (amount e), date_col = Some (date e)\<rparr>])"
proof -
  have "find (\<lambda>r. id_col r = next_id tbl) tbl = None"
    using next_id_fresh [OF assms(1)] by (force simp: find_None_iff)
  moreover have "bind_float (amount e) = Some (amount e)"
    using assms(2) by (cases "amount e") (simp_all add: bind_float_def)
  ultimately show ?thesis
    by (simp add: create_expense_api_def add_commit_def refresh_def model_validate_def
        Let_def find_append_None)
qed

text \<open>
  C1. The input with description "Test Expense", amount NaN and a date is well typed:
  NaN is a float. \<^verbatim>\<open>POST /api/expenses/\<close> on the empty table commits the row under
  id 1 with a NULL amount, and validating the reloaded row raises: the request ends in
  status 500 and returns no record.
\<close>

theorem create_expense_api_nan_amount:
  "create_expense_api
     \<lparr>description = ''Test Expense'', amount = NaN, date = \<lparr>year = 2024, month = 5, day = 17\<rparr>\<rparr> [] =
     (Inl (Unhandled ValidationError),
      [\<lparr>id_col = 1, description_col = Some ''Test Expense'', amount_col = None,
        date_col = Some \<lparr>year = 2024, month = 5, day = 17\<rparr>\<rparr>])
   \<and> status (fst (app sql_sum (POST_api_expenses
        \<lparr>description = ''Test Expense'', amount = NaN,
         date = \<lparr>year = 2024, month = 5, day = 17\<rparr>\<rparr>) [])) = 500"
  by (simp add: create_expense_api_def add_commit_def next_id_def bind_float_def refresh_def
      model_validate_def respond_def)

text \<open>
  C4. With amount NaN the round trip does not return the input. After the create, the
  request has failed and the lookup of id 1 finds a row whose amount is NULL. The
  update of the present id 1 with amount NaN fails in the same way and leaves the row
  with the new description, the new date and a NULL amount.
\<close>

theorem roundtrip_nan_amount:
  "create_expense_api
     \<lparr>description = ''Test Expense'', amount = NaN, date = \<lparr>year = 2024, month = 5, day = 17\<rparr>\<rparr> [] =
     (Inl (Unhandled ValidationError),
      [\<lparr>id_col = 1, description_col = Some ''Test Expense'', amount_col = None,
        date_col = Some \<lparr>year = 2024, month = 5, day = 17\<rparr>\<rparr>])
   \<and> query_first 1
        [\<lparr>id_col = 1, description_col = Some ''Test Expense'', amount_col = None,
          date_col = Some \<lparr>year = 2024, month = 5, day = 17\<rparr>\<rparr>] =
      Inr (Some \<lparr>id_col = 1, description_col = Some ''Test Expense'', amount_col = None,
                 date_col = Some \<lparr>year = 2024, month = 5, day = 17\<rparr>\<rparr>)
   \<and> update_expense_api 1
        \<lparr>description = ''Updated Test Expense'', amount = NaN,
         date = \<lparr>year = 2024, month = 5, day = 17\<rparr>\<rparr> [rent_row] =
      (Inl (Unhandled ValidationError),
       [\<lparr>id_col = 1, description_col = Some ''Updated Test Expense'', amount_col = None,
         date_col = Some \<lparr>year = 2024, month = 5, day = 17\<rparr>\<rparr>])"
  by (simp add: create_expense_api_def update_expense_api_def add_commit_def update_commit_def
      next_id_def bind_float_def refresh_def model_validate_def query_first_def storable_def
      rent_row_def)

section \<open>Reads\<close>

text \<open>
  C9. The four reading routes, \<^verbatim>\<open>GET /\<close>, \<^verbatim>\<open>GET /api/expenses/\<close>,
  \<^verbatim>\<open>GET /api/expenses/total\<close> and \<^verbatim>\<open>GET /update/{id}\<close>, hand the table back as they
  found it, whether they answer or fail.
\<close>

theorem reads_leave_table_unchanged:
  "snd (read_root sql_sum tbl) = tbl
   \<and> snd (read_expenses_api tbl) = tbl
   \<and> snd (total_expenses_api sql_sum today1 today2 tbl) = tbl
   \<and> snd (update_expense_form expense_id tbl) = tbl
   \<and> snd (app sql_sum GET_root tbl) = tbl
   \<and> snd (app sql_sum GET_api_expenses tbl) = tbl
   \<and> snd (app sql_sum (GET_api_expenses_total today1 today2) tbl) = tbl
   \<and> snd (app sql_sum (GET_update expense_id) tbl) = tbl"
  by (simp add: read_root_def read_expenses_api_def total_expenses_api_def
      update_expense_form_def snd_respond Let_def split: option.split sum.split)

section \<open>The total of the current month\<close>

text \<open>
  When both clock readings show the same day, the rows selected are exactly those
  dated in the month and year of that day.
\<close>

lemma extract_matches_same_month: "extract_matches (month today) (year today) = same_month today"
  by (auto simp: extract_matches_def same_month_def fun_eq_iff split: option.splits)

lemma total_expenses_api_one_reading:
  "total_expenses_api sql_sum today today tbl =
     (or_zero (func_sum sql_sum (map amount_col (filter (same_month today) tbl))), tbl)"
  by (simp add: total_expenses_api_def extract_matches_same_month)

text \<open>
  C3. A call across the turn of the year: the first clock reading is 2024-12-31, the
  second 2025-01-01. The table holds a row dated in December 2024 and a row dated in
  January 2025, so a row lies in the month of either reading. The handler selects the
  rows of month 12 of year 2025, which is none, and answers 0.0.
\<close>

theorem total_expenses_api_across_new_year:
  "same_month \<lparr>year = 2024, month = 12, day = 31\<rparr> dec_row
   \<and> same_month \<lparr>year = 2025, month = 1, day = 1\<rparr> jan_row
   \<and> filter (extract_matches 12 2025) [dec_row, jan_row] = []
   \<and> total_expenses_api sql_sum \<lparr>year = 2024, month = 12, day = 31\<rparr>
        \<lparr>year = 2025, month = 1, day = 1\<rparr> [dec_row, jan_row] =
      (Finite 0, [dec_row, jan_row])"
  by (simp add: same_month_def total_expenses_api_def extract_matches_def func_sum_def
      or_zero_def List.map_filter_simps dec_row_def jan_row_def)

section \<open>The invariant of the table\<close>

text \<open>
  The ids stay unique under every request, while the largest id present is below the
  largest 64-bit integer.
\<close>

lemma distinct_ids_preserved:
  assumes "distinct (map id_col tbl)" and "\<forall>r \<in> set tbl. sint (id_col r) < 2 ^ 63 - 1"
  shows "distinct (map id_col (snd (app sql_sum req tbl)))"
proof -
  have added: "distinct (map id_col (snd (add_commit d a dt tbl)))" for d a dt
    using assms next_id_fresh [OF assms(2)] by (simp add: add_commit_def Let_def)
  have updated: "distinct (map id_col (update_commit pk d a dt tbl))" for pk d a dt
  proof -
    have "map id_col (update_commit pk d a dt tbl) = map id_col tbl"
      by (simp add: update_commit_def)
    with assms(1) show ?thesis by simp
  qed
  have deleted: "distinct (map id_col (delete_commit pk tbl))" for pk
    using assms(1) by (simp add: delete_commit_def distinct_map_filter)
  show ?thesis
    using assms(1) added updated deleted
    by (cases req)
      (auto simp: snd_respond read_root_def read_expenses_api_def total_expenses_api_def
        update_expense_form_def snd_add_expense snd_create_expense_api update_expense_def
        update_expense_api_def delete_expense_def delete_expense_api_def Let_def
        split: sum.splits option.splits prod.splits)
qed

text \<open>
  C8. The invariant holds of the empty table, and one request breaks it:
  \<^verbatim>\<open>POST /add\<close> with amount NaN answers with the redirect and leaves a row whose
  amount is NULL.
\<close>

theorem table_invariant_broken_by_nan:
  "app sql_sum (POST_add ''Lunch'' NaN \<lparr>year = 2024, month = 5, day = 17\<rparr>) [] =
     (Web (RedirectResponse ''/'' 303),
      [\<lparr>id_col = 1, description_col = Some ''Lunch'', amount_col = None,
        date_col = Some \<lparr>year = 2024, month = 5, day = 17\<rparr>\<rparr>])
   \<and> table_invariant []
   \<and> \<not> table_invariant
        (serve sql_sum [POST_add ''Lunch'' NaN \<lparr>year = 2024, month = 5, day = 17\<rparr>] [])"
  by (simp add: add_expense_def add_commit_def next_id_def bind_float_def refresh_def
      respond_def table_invariant_def populated_def)

end
